theory Spec2Isabelle
  imports Main "HOL-Library.AList"
begin

section \<open>Errors (error.go)\<close>

text \<open>
  An HTTP response as the client reads it: the numeric status code, the status line
  and the body. Reading the body can itself fail (\<open>io.ReadAll\<close> returns an error), so
  the body is either the bytes or the message of the read error.
\<close>

datatype body_read = ReadFails string | Bytes string

record response =
  StatusCode :: int
  Status :: string
  Body :: body_read

text \<open>
  Go's \<open>error\<close> values, as far as the client creates or inspects them:
  \<^item> \<open>ErrNew s\<close> is \<open>errors.New(s)\<close> (also any opaque library error with text \<open>s\<close>);
  \<^item> \<open>ErrEOF\<close> is the sentinel \<open>io.EOF\<close>;
  \<^item> \<open>ErrWrap p e\<close> is \<open>fmt.Errorf(p + "%w", e)\<close>;
  \<^item> \<open>ErrJoin es\<close> is the non-nil result of \<open>errors.Join(es...)\<close>;
  \<^item> \<open>ErrStruct a\<close> is a caller-declared error struct, a pointer to heap cell \<open>a\<close>:
    its text is whatever the cell renders at the moment \<open>Error()\<close> is called;
  \<^item> \<open>ErrorResponse m r p\<close> is the struct of error.go (message, response, Parent).
  A nil \<open>error\<close> is \<open>None\<close> of \<open>err option\<close>.
\<close>

datatype err =
    ErrNew string
  | ErrEOF
  | ErrWrap string err
  | ErrJoin "err list"
  | ErrStruct nat
  | ErrorResponse (message: string) (response: "response option") (Parent: "err option")

text \<open>\<open>strings.Join(elems, sep)\<close>.\<close>

fun strings_Join :: "string list \<Rightarrow> string \<Rightarrow> string" where
  "strings_Join [] sep = []"
| "strings_Join [x] sep = x"
| "strings_Join (x # y # ys) sep = x @ sep @ strings_Join (y # ys) sep"

text \<open>
  \<open>Error()\<close>. The first argument renders the caller's error structs from the heap as it
  is now. The \<open>ErrorResponse\<close> case is the method of error.go; \<open>errors.Join\<close> separates
  its members by a newline.
\<close>

fun Error :: "(nat \<Rightarrow> string) \<Rightarrow> err \<Rightarrow> string" where
  "Error h (ErrNew s) = s"
| "Error h ErrEOF = ''EOF''"
| "Error h (ErrWrap p e) = p @ Error h e"
| "Error h (ErrJoin es) = strings_Join (map (Error h) es) [CHR 0x0A]"
| "Error h (ErrStruct a) = h a"
| "Error h (ErrorResponse m r p) =
     (case p of
        None \<Rightarrow> m
      | Some e \<Rightarrow> strings_Join [m, Error h e] '': '')"

text \<open>\<open>Unwrap()\<close>: the method of \<open>ErrorResponse\<close>, and that of a \<open>%w\<close> wrapper.\<close>

fun Unwrap :: "err \<Rightarrow> err option" where
  "Unwrap (ErrorResponse m r p) = p"
| "Unwrap (ErrWrap p e) = Some e"
| "Unwrap _ = None"

definition NewErrorResponse :: "string \<Rightarrow> response option \<Rightarrow> err option \<Rightarrow> err" where
  "NewErrorResponse msg resp parent = ErrorResponse msg resp parent"

text \<open>
  \<open>errors.Join(errs...)\<close>: nil when there is no error to join. (The list holds no nil
  member: a nil error is not a value of \<open>err\<close>.)
\<close>

definition errors_Join :: "err list \<Rightarrow> err option" where
  "errors_Join es = (if es = [] then None else Some (ErrJoin es))"

text \<open>
  \<open>errors.Is(e, target)\<close>: \<open>e\<close> or an error reached from it by unwrapping (through a
  single parent or through the members of a join) is the target.
\<close>

fun errors_Is :: "err \<Rightarrow> err \<Rightarrow> bool" where
  "errors_Is (ErrWrap p e) t = (ErrWrap p e = t \<or> errors_Is e t)"
| "errors_Is (ErrJoin es) t = (ErrJoin es = t \<or> (\<exists>e \<in> set es. errors_Is e t))"
| "errors_Is (ErrorResponse m r p) t =
     (ErrorResponse m r p = t \<or> (case p of None \<Rightarrow> False | Some e \<Rightarrow> errors_Is e t))"
| "errors_Is e t = (e = t)"

section \<open>Values, requests and the standard library the client calls\<close>

text \<open>
  The client is generic in the Go values a request carries (its tagged fields and its
  body): they are values of a type \<open>'v\<close>. What the client asks of such a value, and
  every function of the Go standard library and of json-iterator it calls, is a field of
  the record \<open>golib\<close>; the client's own code is defined below for an arbitrary \<open>golib\<close>.
  Decoding writes through pointers into the caller's memory, a heap of type \<open>'h\<close>.
\<close>

record url =
  Prefix :: string
  Path :: string
  RawQuery :: string

type_synonym url_Values = "(string \<times> string list) list"

text \<open>An \<open>io.Reader\<close> handed to \<open>http.NewRequestWithContext\<close> as the body.\<close>

datatype reader = Stream nat | BytesReader string | Buffer string

record http_request =
  req_Method :: string
  req_URL :: string
  Header :: "(string \<times> string) list"
  req_Body :: "reader option"

text \<open>\<open>jsoniter.Config\<close>, with the options the client sets.\<close>

record jsoniter_Config =
  EscapeHTML :: bool
  SortMapKeys :: bool
  ValidateJsonRawMessage :: bool
  DisallowUnknownFields :: bool

text \<open>\<open>jsoniter.ConfigDefault\<close>, which the package-level \<open>jsoniter.NewEncoder\<close> uses.\<close>

definition ConfigDefault :: jsoniter_Config where
  "ConfigDefault =
     \<lparr>EscapeHTML = True, SortMapKeys = False, ValidateJsonRawMessage = False,
      DisallowUnknownFields = False\<rparr>"

text \<open>
  What \<open>Unmarshal\<close> passes to the decoder (each wrapped once more as \<open>&v\<close>):
  \<^item> \<open>TDest a\<close>: the caller's destination, a pointer to cell \<open>a\<close>;
  \<^item> \<open>TErrPtr e\<close>: \<open>&e\<close>, a pointer to a variable of type \<open>error\<close> that holds \<open>e\<close>;
  \<^item> \<open>TErrSlice es\<close>: the slice \<open>[]error\<close> itself, as one value.
\<close>

datatype target = TDest nat | TErrPtr err | TErrSlice "err list"

record ('v, 'h) golib =
  reflect_IsZero :: "'v \<Rightarrow> bool"
  isZeroer :: "'v \<Rightarrow> bool option"
  fmt_Sprint :: "'v \<Rightarrow> string"
  url_Parse :: "string \<Rightarrow> err + url"
  url_Query :: "url \<Rightarrow> url_Values"
  values_Encode :: "url_Values \<Rightarrow> string"
  url_String :: "url \<Rightarrow> string"
  path_Join :: "string \<Rightarrow> string \<Rightarrow> string"
  template_Parse :: "string \<Rightarrow> err option"
  template_Execute :: "string \<Rightarrow> (string \<times> 'v) list \<Rightarrow> err + string"
  http_NewRequestWithContext :: "string \<Rightarrow> string \<Rightarrow> reader option \<Rightarrow> err + http_request"
  CanonicalHeaderKey :: "string \<Rightarrow> string"
  basicAuth :: "string \<Rightarrow> string \<Rightarrow> string"
  jsoniter_Encode :: "jsoniter_Config \<Rightarrow> 'v \<Rightarrow> err + string"
  jsoniter_Unmarshal :: "jsoniter_Config \<Rightarrow> string \<Rightarrow> target \<Rightarrow> 'h \<Rightarrow> err option \<times> 'h"
  render :: "'h \<Rightarrow> nat \<Rightarrow> string"

text \<open>
  A struct field as reflection shows it: its tag (key to value, \<open>Tag.Lookup\<close>) and its
  value, which is a nil pointer, a non-nil pointer to a value, or a value that is not a
  pointer.
\<close>

datatype 'v fieldval = NilPointer | Pointer 'v | Value 'v

record 'v field =
  tags :: "(string \<times> string) list"
  fvalue :: "'v fieldval"

text \<open>The dynamic type of \<open>Body()\<close>, as the type switch of \<open>getRequestBody\<close> sees it.\<close>

datatype 'v body_value = BReader nat | BBytes string | BString string | BOther 'v

text \<open>
  A request value. \<open>Method\<close> and \<open>PathTemplate\<close> are the interface \<open>Request\<close>; the optional
  interfaces (\<open>RequestWithBody\<close>, \<open>RequestWithParsableErrors\<close>,
  \<open>RequestWithAuthPreference\<close>) are \<open>None\<close> when the value does not implement them.
  \<open>struct_fields\<close> is \<open>None\<close> when the value, after dereferencing pointers, is not a struct.
\<close>

record 'v request =
  Method :: string
  PathTemplate :: string
  struct_fields :: "'v field list option"
  Body_of :: "'v body_value option"
  ErrorStructs :: "err list option"
  SkipAuth :: "bool option"

section \<open>Tagged fields (getTaggedFields)\<close>

text \<open>\<open>strings.Split(s, sep)\<close> for a separator of one byte.\<close>

fun strings_Split :: "string \<Rightarrow> char \<Rightarrow> string list" where
  "strings_Split [] sep = [[]]"
| "strings_Split (c # cs) sep =
     (if c = sep then [] # strings_Split cs sep
      else (case strings_Split cs sep of
              [] \<Rightarrow> [[c]]
            | p # ps \<Rightarrow> (c # p) # ps))"

text \<open>\<open>parts[0]\<close>: the split of any string has a first part.\<close>

definition first_part :: "string list \<Rightarrow> string" where
  "first_part parts = (case parts of [] \<Rightarrow> [] | p # _ \<Rightarrow> p)"

text \<open>
  One round of the loop of \<open>getTaggedFields\<close>: \<open>None\<close> is \<open>continue\<close> (or a field without
  the tag), \<open>Some (name, raw)\<close> is the assignment \<open>fields[tagValue] = raw\<close>.
\<close>

definition tagged_entry :: "('v, 'h) golib \<Rightarrow> string \<Rightarrow> 'v field \<Rightarrow> (string \<times> 'v) option" where
  "tagged_entry L tag f =
     (case map_of (tags f) tag of
        None \<Rightarrow> None
      | Some tagValue \<Rightarrow>
          (let parts = strings_Split tagValue CHR '','';
               name = first_part parts
           in case fvalue f of
                NilPointer \<Rightarrow> None
              | Pointer raw \<Rightarrow>
                  (if ''omitempty'' \<in> set parts then
                     (if reflect_IsZero L raw then None
                      else if isZeroer L raw = Some True then None
                      else Some (name, raw))
                   else Some (name, raw))
              | Value raw \<Rightarrow>
                  (if ''omitempty'' \<in> set parts then
                     (if reflect_IsZero L raw then None
                      else if isZeroer L raw = Some True then None
                      else Some (name, raw))
                   else Some (name, raw))))"

definition tagged_step ::
  "('v, 'h) golib \<Rightarrow> string \<Rightarrow> (string \<times> 'v) list \<Rightarrow> 'v field \<Rightarrow> (string \<times> 'v) list" where
  "tagged_step L tag m f =
     (case tagged_entry L tag f of
        None \<Rightarrow> m
      | Some (name, raw) \<Rightarrow> AList.update name raw m)"

text \<open>
  \<open>getTaggedFields(elem, tag)\<close>: the map from parameter name to value, as an association
  list with distinct keys. A value that is not a struct gives the empty map.
\<close>

definition getTaggedFields ::
  "('v, 'h) golib \<Rightarrow> 'v request \<Rightarrow> string \<Rightarrow> (string \<times> 'v) list" where
  "getTaggedFields L elem tag =
     (case struct_fields elem of
        None \<Rightarrow> []
      | Some fs \<Rightarrow> foldl (tagged_step L tag) [] fs)"

text \<open>The parameter name a field's tag gives it, when it bears the tag at all.\<close>

definition param_name :: "string \<Rightarrow> 'v field \<Rightarrow> string option" where
  "param_name tag f =
     map_option (\<lambda>tagValue. first_part (strings_Split tagValue CHR '','')) (map_of (tags f) tag)"

section \<open>Building the outbound request (getRequestBody, getHttpRequest)\<close>

text \<open>
  \<open>log.Fatal\<close> prints its argument and ends the process with \<open>os.Exit(1)\<close>: the caller
  gets nothing back. A computation of the client therefore either returns a value or is
  \<open>Fatal\<close>, with the error that was logged.
\<close>

datatype 'a outcome = Return 'a | Fatal err

text \<open>
  \<open>getRequestBody\<close>. The function has the request as its only argument; the encoder of
  the default branch is \<open>jsoniter.NewEncoder\<close>, the package-level one.
\<close>

definition getRequestBody :: "('v, 'h) golib \<Rightarrow> 'v request \<Rightarrow> err + reader option" where
  "getRequestBody L r =
     (case Body_of r of
        None \<Rightarrow> Inr None
      | Some (BReader b) \<Rightarrow> Inr (Some (Stream b))
      | Some (BBytes b) \<Rightarrow> Inr (Some (BytesReader b))
      | Some (BString b) \<Rightarrow> Inr (Some (BytesReader b))
      | Some (BOther v) \<Rightarrow>
          (case jsoniter_Encode L ConfigDefault v of
             Inl e \<Rightarrow> Inl (ErrWrap ''failed to encode request body: '' e)
           | Inr buf \<Rightarrow> Inr (Some (Buffer buf))))"

text \<open>\<open>q.Add(k, v)\<close> on \<open>url.Values\<close>: append \<open>v\<close> to the values of key \<open>k\<close>.\<close>

definition values_Add :: "string \<Rightarrow> string \<Rightarrow> url_Values \<Rightarrow> url_Values" where
  "values_Add k v q =
     AList.update k (case map_of q k of None \<Rightarrow> [v] | Some vs \<Rightarrow> vs @ [v]) q"

text \<open>
  \<open>getHttpRequest\<close>. A failure of \<open>tmpl.Execute\<close> goes to \<open>log.Fatal\<close>; every other
  failure is returned.
\<close>

definition getHttpRequest ::
  "('v, 'h) golib \<Rightarrow> 'v request \<Rightarrow> url \<Rightarrow> (err + http_request) outcome" where
  "getHttpRequest L request baseUrl =
     (let pathParams = getTaggedFields L request ''path'';
          queryParams = getTaggedFields L request ''query''
      in case url_Parse L (PathTemplate request) of
           Inl e \<Rightarrow> Return (Inl (ErrWrap ''invalid path template: '' e))
         | Inr parsed \<Rightarrow>
             (let q0 = url_Query L baseUrl;
                  q1 = foldl (\<lambda>q (k, vv). foldl (\<lambda>q v. values_Add k v q) q vv) q0
                         (url_Query L parsed);
                  q2 = foldl (\<lambda>q (k, v). values_Add k (fmt_Sprint L v) q) q1 queryParams;
                  requestUrl = baseUrl\<lparr>RawQuery := values_Encode L q2,
                                       Path := path_Join L (Path baseUrl) (Path parsed)\<rparr>;
                  rendered =
                    (if pathParams \<noteq> [] then
                       (case template_Parse L (Path requestUrl) of
                          Some e \<Rightarrow> Return (Inl (ErrWrap ''failed to parse path template: '' e))
                        | None \<Rightarrow>
                            (case template_Execute L (Path requestUrl) pathParams of
                               Inl e \<Rightarrow> Fatal e
                             | Inr buf \<Rightarrow> Return (Inr (requestUrl\<lparr>Path := buf\<rparr>))))
                     else Return (Inr requestUrl))
              in case rendered of
                   Fatal m \<Rightarrow> Fatal m
                 | Return (Inl e) \<Rightarrow> Return (Inl e)
                 | Return (Inr requestUrl') \<Rightarrow>
                     (case getRequestBody L request of
                        Inl e \<Rightarrow> Return (Inl e)
                      | Inr body \<Rightarrow>
                          (case http_NewRequestWithContext L (Method request)
                                  (url_String L requestUrl') body of
                             Inl e \<Rightarrow> Return (Inl (ErrWrap ''failed to create new http request: '' e))
                           | Inr req \<Rightarrow> Return (Inr req)))))"

section \<open>The client (client struct, GetJsoniter, Unmarshal, checkForErrorResponse, Do)\<close>

definition authTypeNone :: int where "authTypeNone = 0"
definition authTypeBasic :: int where "authTypeBasic = 1"
definition authTypeApiKey :: int where "authTypeApiKey = 2"
definition authTypeOAuth2 :: int where "authTypeOAuth2 = 3"
definition authTypePreflight :: int where "authTypePreflight = 4"

text \<open>
  The configuration of a client. \<open>httpClient\<close> is the transport: \<open>httpClient c n req\<close> is
  what \<open>c.httpClient.Do(req)\<close> returns when \<open>n\<close> requests have been sent before, an error
  or a response. \<open>preflightAuthFunc\<close> is \<open>None\<close> when the function is nil. The two fields
  of the Go struct that \<open>Do\<close> writes (\<open>httpClient.Jar\<close>, \<open>jsoniterInstance\<close>) are in the
  state below.
\<close>

record client =
  debug :: bool
  userAgent :: string
  mediaType :: string
  charset :: string
  baseURL :: "url option"
  disallowUnknownFields :: bool
  useCookies :: bool
  authType :: int
  userName :: string
  password :: string
  keyHeader :: string
  keyValue :: string
  maxRetries :: int
  preflightAuthFunc :: "(http_request \<Rightarrow> err + http_request) option"
  httpClient :: "nat \<Rightarrow> http_request \<Rightarrow> err + response"

datatype jar = CookieJar "string list"

text \<open>
  What a call of \<open>Do\<close> reads and writes besides its arguments: the cookie jar of the HTTP
  client, the cached codec, the caller's memory that decoding writes to, and, as a
  record of the effects, the requests handed to the transport, the requests handed to
  the preflight function and the sleeps (in milliseconds), each in order.
\<close>

record 'h state =
  Jar :: "jar option"
  jsoniterInstance :: "jsoniter_Config option"
  heap :: 'h
  sent :: "http_request list"
  preflighted :: "http_request list"
  slept :: "nat list"

text \<open>\<open>GetJsoniter\<close>: the codec is built on first use and cached.\<close>

definition GetJsoniter :: "client \<Rightarrow> 'h state \<Rightarrow> jsoniter_Config \<times> 'h state" where
  "GetJsoniter c w =
     (case jsoniterInstance w of
        None \<Rightarrow>
          (let api = \<lparr>EscapeHTML = True, SortMapKeys = True, ValidateJsonRawMessage = True,
                      DisallowUnknownFields = disallowUnknownFields c\<rparr>
           in (api, w\<lparr>jsoniterInstance := Some api\<rparr>))
      | Some api \<Rightarrow> (api, w))"

text \<open>
  The loop of \<open>Unmarshal\<close>: every target is decoded from the same bytes; an error that is
  not \<open>io.EOF\<close> is collected.
\<close>

fun Unmarshal_loop ::
  "('v, 'h) golib \<Rightarrow> client \<Rightarrow> string \<Rightarrow> target list \<Rightarrow> err list \<Rightarrow> 'h state
     \<Rightarrow> err list \<times> 'h state" where
  "Unmarshal_loop L c b [] errs w = (errs, w)"
| "Unmarshal_loop L c b (v # vv) errs w =
     (case GetJsoniter c w of
        (api, w1) \<Rightarrow>
          (case jsoniter_Unmarshal L api b v (heap w1) of
             (r, h') \<Rightarrow>
               Unmarshal_loop L c b vv
                 (case r of
                    None \<Rightarrow> errs
                  | Some e \<Rightarrow> if \<not> errors_Is e ErrEOF then errs @ [e] else errs)
                 (w1\<lparr>heap := h'\<rparr>)))"

definition Unmarshal ::
  "('v, 'h) golib \<Rightarrow> client \<Rightarrow> body_read \<Rightarrow> target list \<Rightarrow> 'h state \<Rightarrow> err option \<times> 'h state" where
  "Unmarshal L c r vv w =
     (if length vv = 0 then (None, w)
      else case r of
             ReadFails m \<Rightarrow> (Some (ErrNew m), w)
           | Bytes b \<Rightarrow>
               (case Unmarshal_loop L c b vv [] w of
                  (errs, w') \<Rightarrow>
                    if length errs = length vv
                    then (Some (ErrNew (strings_Join (map (Error (render L (heap w'))) errs) '', '')), w')
                    else (None, w')))"

definition checkForErrorResponse :: "response \<Rightarrow> err option" where
  "checkForErrorResponse r =
     (if StatusCode r \<ge> 200 \<and> StatusCode r \<le> 299 then None
      else Some (NewErrorResponse (Status r) (Some r) None))"

text \<open>Header operations of \<open>net/http\<close>: \<open>Add\<close> appends, \<open>Set\<close> replaces.\<close>

definition Header_Add :: "('v, 'h) golib \<Rightarrow> string \<Rightarrow> string \<Rightarrow> http_request \<Rightarrow> http_request" where
  "Header_Add L k v req = req\<lparr>Header := Header req @ [(CanonicalHeaderKey L k, v)]\<rparr>"

definition Header_Set :: "('v, 'h) golib \<Rightarrow> string \<Rightarrow> string \<Rightarrow> http_request \<Rightarrow> http_request" where
  "Header_Set L k v req =
     req\<lparr>Header := filter (\<lambda>(k', _). k' \<noteq> CanonicalHeaderKey L k) (Header req)
                      @ [(CanonicalHeaderKey L k, v)]\<rparr>"

text \<open>\<open>req.SetBasicAuth(username, password)\<close>.\<close>

definition SetBasicAuth :: "('v, 'h) golib \<Rightarrow> string \<Rightarrow> string \<Rightarrow> http_request \<Rightarrow> http_request" where
  "SetBasicAuth L u p req = Header_Set L ''Authorization'' (''Basic '' @ basicAuth L u p) req"

text \<open>
  The authentication step of \<open>Do\<close> (the \<open>skipAuth\<close> test and the switch on
  \<open>c.authType\<close>). The preflight function is assumed to return a request when it returns
  no error. OAuth2 has no case of its own: its token is added by the transport.
\<close>

definition Do_auth ::
  "('v, 'h) golib \<Rightarrow> client \<Rightarrow> 'v request \<Rightarrow> http_request \<Rightarrow> 'h state
     \<Rightarrow> (err + http_request) \<times> 'h state" where
  "Do_auth L c request req w =
     (let skipAuth = (case SkipAuth request of None \<Rightarrow> False | Some b \<Rightarrow> b)
      in if \<not> skipAuth then
           (if authType c = authTypeBasic then
              (Inr (SetBasicAuth L (userName c) (password c) req), w)
            else if authType c = authTypeApiKey then
              (Inr (Header_Add L (keyHeader c) (keyValue c) req), w)
            else if authType c = authTypePreflight then
              (case preflightAuthFunc c of
                 None \<Rightarrow> (Inr req, w)
               | Some f \<Rightarrow> (f req, w\<lparr>preflighted := preflighted w @ [req]\<rparr>))
            else (Inr req, w))
         else (Inr req, w))"

text \<open>The headers \<open>Do\<close> adds to every request after authentication.\<close>

definition Do_headers :: "('v, 'h) golib \<Rightarrow> client \<Rightarrow> http_request \<Rightarrow> http_request" where
  "Do_headers L c req =
     Header_Add L ''User-Agent'' (userAgent c)
       (Header_Add L ''Accept'' (mediaType c)
          (Header_Add L ''Content-Type'' (mediaType c @ ''; charset='' @ charset c) req))"

text \<open>\<open>errResponse.Parent = ...\<close> on the \<open>ErrorResponse\<close> that \<open>checkForErrorResponse\<close> made.\<close>

fun set_Parent :: "err \<Rightarrow> err option \<Rightarrow> err" where
  "set_Parent (ErrorResponse m r p) q = ErrorResponse m r q"
| "set_Parent e q = e"

text \<open>
  The part of \<open>Do\<close> after a response has arrived; \<open>dest\<close> is the argument
  \<open>response interface{}\<close>, nil or a pointer to a heap cell. On a status outside 200..299 the
  declared error structs are passed to \<open>Unmarshal\<close> as one argument, the slice; on a
  status inside, the destination and a pointer to each error struct are passed.
\<close>

definition Do_resolve ::
  "('v, 'h) golib \<Rightarrow> client \<Rightarrow> 'v request \<Rightarrow> nat option \<Rightarrow> response \<Rightarrow> 'h state
     \<Rightarrow> err option \<times> 'h state" where
  "Do_resolve L c request dest resp w =
     (let errorStructs = (case ErrorStructs request of None \<Rightarrow> [] | Some es \<Rightarrow> es)
      in case checkForErrorResponse resp of
           Some errResponse \<Rightarrow>
             (case Unmarshal L c (Body resp) [TErrSlice errorStructs] w of
                (Some e, w') \<Rightarrow> (Some errResponse, w')
              | (None, w') \<Rightarrow>
                  (let errs = filter (\<lambda>e. Error (render L (heap w')) e \<noteq> []) errorStructs
                   in (Some (set_Parent errResponse (errors_Join errs)), w')))
         | None \<Rightarrow>
             (case dest of
                None \<Rightarrow> (None, w)
              | Some dst \<Rightarrow>
                  (case Unmarshal L c (Body resp) (TDest dst # map TErrPtr errorStructs) w of
                     (Some e, w') \<Rightarrow>
                       (Some (NewErrorResponse ''failed to unmarshal response'' (Some resp) (Some e)), w')
                   | (None, w') \<Rightarrow>
                       (case find (\<lambda>e. Error (render L (heap w')) e \<noteq> []) errorStructs of
                          Some e \<Rightarrow>
                            (Some (NewErrorResponse ''error in response'' (Some resp) (Some e)), w')
                        | None \<Rightarrow> (None, w')))))"

text \<open>
  The cookie jar of the HTTP client: made on first use when cookies are enabled, set to
  nil when they are not.
\<close>

definition Do_jar :: "client \<Rightarrow> 'h state \<Rightarrow> 'h state" where
  "Do_jar c w =
     w\<lparr>Jar := (if useCookies c
                then (case Jar w of None \<Rightarrow> Some (CookieJar []) | Some j \<Rightarrow> Some j)
                else None)\<rparr>"

text \<open>
  The first part of \<open>Do\<close>, up to the call of the transport. It ends the call
  (\<open>Ended\<close>: no base URL, a request that cannot be built, a failed preflight), or the
  transport reports an error (\<open>Failed\<close>), or it answers (\<open>Responded\<close>).
\<close>

datatype sending = Ended "err option outcome" | Failed err | Responded response

definition Do_send ::
  "('v, 'h) golib \<Rightarrow> client \<Rightarrow> 'v request \<Rightarrow> 'h state \<Rightarrow> sending \<times> 'h state" where
  "Do_send L c request w =
     (case baseURL c of
        None \<Rightarrow> (Ended (Return (Some (ErrNew ''client base URL not set''))), w)
      | Some base \<Rightarrow>
          (let w1 = Do_jar c w
           in case getHttpRequest L request base of
                Fatal e \<Rightarrow> (Ended (Fatal e), w1)
              | Return (Inl e) \<Rightarrow> (Ended (Return (Some e)), w1)
              | Return (Inr req) \<Rightarrow>
                  (case Do_auth L c request req w1 of
                     (Inl e, w2) \<Rightarrow> (Ended (Return (Some e)), w2)
                   | (Inr req2, w2) \<Rightarrow>
                       (let req3 = Do_headers L c req2;
                            w3 = w2\<lparr>sent := sent w2 @ [req3]\<rparr>
                        in case httpClient c (length (sent w2)) req3 of
                             Inl e \<Rightarrow> (Failed e, w3)
                           | Inr resp \<Rightarrow> (Responded resp, w3)))))"

text \<open>
  The attempt counter of the context: \<open>ctx.Value(contextKeyAttempt).(int)\<close> is zero when
  the context has no such value.
\<close>

definition attempt_of :: "int option \<Rightarrow> int" where
  "attempt_of ctx = (case ctx of None \<Rightarrow> 0 | Some a \<Rightarrow> a)"

text \<open>
  \<open>Do\<close>. On a transport error with attempts left it sleeps 100 ms and calls itself with
  the counter incremented in the context; the call starts again at the top.
\<close>

function Do ::
  "('v, 'h) golib \<Rightarrow> client \<Rightarrow> int option \<Rightarrow> 'v request \<Rightarrow> nat option \<Rightarrow> 'h state
     \<Rightarrow> err option outcome \<times> 'h state" where
  "Do L c ctx request dest w =
     (case Do_send L c request w of
        (Ended r, w') \<Rightarrow> (r, w')
      | (Failed e, w') \<Rightarrow>
          (if attempt_of ctx < maxRetries c
           then Do L c (Some (attempt_of ctx + 1)) request dest (w'\<lparr>slept := slept w' @ [100]\<rparr>)
           else (Return (Some (ErrWrap ''failed to do http request: '' e)), w'))
      | (Responded resp, w') \<Rightarrow>
          (case Do_resolve L c request dest resp w' of
             (r, w'') \<Rightarrow> (Return r, w'')))"
  by pat_completeness auto
termination
  by (relation "measure (\<lambda>(L, c, ctx, request, dest, w). nat (maxRetries c - attempt_of ctx))")
     (auto simp: attempt_of_def)

declare Do.simps [simp del]

section \<open>The copy of getTaggedFields in src/client/client.go\<close>

text \<open>
  The package under \<open>client/\<close> holds an earlier copy of the function: it tests
  \<open>omitempty\<close> against the field itself (a non-nil pointer is never zero), asks no value
  whether it reports itself empty, and stores a nil pointer as it is. The stored value
  is \<open>None\<close> for a nil pointer.
\<close>

definition tagged_entry_client ::
  "('v, 'h) golib \<Rightarrow> string \<Rightarrow> 'v field \<Rightarrow> (string \<times> 'v option) option" where
  "tagged_entry_client L tag f =
     (case map_of (tags f) tag of
        None \<Rightarrow> None
      | Some tagValue \<Rightarrow>
          (let parts = strings_Split tagValue CHR '','';
               name = first_part parts
           in if ''omitempty'' \<in> set parts
                 \<and> (case fvalue f of
                       NilPointer \<Rightarrow> True
                     | Pointer raw \<Rightarrow> False
                     | Value raw \<Rightarrow> reflect_IsZero L raw)
              then None
              else (case fvalue f of
                      Pointer raw \<Rightarrow> Some (name, Some raw)
                    | NilPointer \<Rightarrow> Some (name, None)
                    | Value raw \<Rightarrow> Some (name, Some raw))))"

definition getTaggedFields_client ::
  "('v, 'h) golib \<Rightarrow> 'v request \<Rightarrow> string \<Rightarrow> (string \<times> 'v option) list" where
  "getTaggedFields_client L elem tag =
     (case struct_fields elem of
        None \<Rightarrow> []
      | Some fs \<Rightarrow>
          foldl (\<lambda>m f. case tagged_entry_client L tag f of
                          None \<Rightarrow> m
                        | Some (name, raw) \<Rightarrow> AList.update name raw m) [] fs)"

section \<open>A concrete library, for running the client on examples\<close>

text \<open>
  Example values: integers, strings and maps from string to value. A map is given with
  the order in which Go happens to iterate over it.
\<close>

datatype gval = GInt int | GStr string | GMap "(string \<times> gval) list"

fun demo_IsZero :: "gval \<Rightarrow> bool" where
  "demo_IsZero (GInt n) = (n = 0)"
| "demo_IsZero (GStr s) = (s = [])"
| "demo_IsZero (GMap kvs) = False"

function show_nat :: "nat \<Rightarrow> string" where
  "show_nat n =
     (if n < 10 then [''0123456789'' ! n]
      else show_nat (n div 10) @ [''0123456789'' ! (n mod 10)])"
  by pat_completeness auto
termination
  by (relation "measure id") auto

declare show_nat.simps [simp del]

definition show_int :: "int \<Rightarrow> string" where
  "show_int i = (if i < 0 then ''-'' @ show_nat (nat (- i)) else show_nat (nat i))"

text \<open>Byte-wise order of strings, and sorting an association list by key.\<close>

fun str_le :: "string \<Rightarrow> string \<Rightarrow> bool" where
  "str_le [] t = True"
| "str_le (c # cs) [] = False"
| "str_le (c # cs) (d # ds) =
     ((of_char c :: nat) < of_char d \<or> (c = d \<and> str_le cs ds))"

fun insert_key :: "string \<times> 'a \<Rightarrow> (string \<times> 'a) list \<Rightarrow> (string \<times> 'a) list" where
  "insert_key kv [] = [kv]"
| "insert_key kv (x # xs) =
     (if str_le (fst kv) (fst x) then kv # x # xs else x # insert_key kv xs)"

definition sort_keys :: "(string \<times> 'a) list \<Rightarrow> (string \<times> 'a) list" where
  "sort_keys kvs = foldr insert_key kvs []"

text \<open>
  JSON text of a value under a configuration: the keys of a map are sorted when
  \<open>SortMapKeys\<close> is set and come in iteration order otherwise. (The example strings need
  no escaping.)
\<close>

fun demo_json :: "jsoniter_Config \<Rightarrow> gval \<Rightarrow> string" where
  "demo_json cfg (GInt n) = show_int n"
| "demo_json cfg (GStr s) = [CHR 0x22] @ s @ [CHR 0x22]"
| "demo_json cfg (GMap kvs) =
     ''{'' @ strings_Join
               (map (\<lambda>(k, j). [CHR 0x22] @ k @ [CHR 0x22] @ '':'' @ j)
                  ((if SortMapKeys cfg then sort_keys else (\<lambda>x. x))
                     (map (\<lambda>(k, v). (k, demo_json cfg v)) kvs))) '','' @ ''}''"

text \<open>\<open>Encoder.Encode\<close> writes the value and a newline.\<close>

definition demo_Encode :: "jsoniter_Config \<Rightarrow> gval \<Rightarrow> err + string" where
  "demo_Encode cfg v = Inr (demo_json cfg v @ [CHR 0x0A])"

fun demo_Sprint :: "gval \<Rightarrow> string" where
  "demo_Sprint (GInt n) = show_int n"
| "demo_Sprint (GStr s) = s"
| "demo_Sprint (GMap kvs) =
     ''map['' @ strings_Join
                   (map (\<lambda>(k, t). k @ '':'' @ t)
                      (sort_keys (map (\<lambda>(k, v). (k, demo_Sprint v)) kvs))) '' '' @ '']''"

definition demo_url_Parse :: "string \<Rightarrow> err + url" where
  "demo_url_Parse s =
     (if \<exists>c \<in> set s. (of_char c :: nat) < 32
      then Inl (ErrNew ''net/url: invalid control character in URL'')
      else Inr \<lparr>Prefix = [], Path = takeWhile (\<lambda>c. c \<noteq> CHR ''?'') s,
                RawQuery = drop 1 (dropWhile (\<lambda>c. c \<noteq> CHR ''?'') s)\<rparr>)"

definition demo_url_Query :: "url \<Rightarrow> url_Values" where
  "demo_url_Query u =
     foldl (\<lambda>q kv. case strings_Split kv CHR ''='' of
                      [] \<Rightarrow> q
                    | [k] \<Rightarrow> values_Add k [] q
                    | k # v # _ \<Rightarrow> values_Add k v q)
       [] (if RawQuery u = [] then [] else strings_Split (RawQuery u) CHR ''&'')"

definition demo_values_Encode :: "url_Values \<Rightarrow> string" where
  "demo_values_Encode q =
     strings_Join (concat (map (\<lambda>(k, vs). map (\<lambda>v. k @ ''='' @ v) vs) (sort_keys q))) ''&''"

definition demo_url_String :: "url \<Rightarrow> string" where
  "demo_url_String u =
     Prefix u @ Path u @ (if RawQuery u = [] then [] else ''?'' @ RawQuery u)"

text \<open>Joining two paths with one slash between them (the examples have no dot segments).\<close>

definition demo_path_Join :: "string \<Rightarrow> string \<Rightarrow> string" where
  "demo_path_Join a b =
     (if b = [] then a
      else if a = [] then b
      else rev (dropWhile (\<lambda>c. c = CHR ''/'') (rev a)) @ ''/'' @ dropWhile (\<lambda>c. c = CHR ''/'') b)"

text \<open>\<open>strings.Contains\<close>.\<close>

fun strings_Contains :: "string \<Rightarrow> string \<Rightarrow> bool" where
  "strings_Contains [] sub = (sub = [])"
| "strings_Contains (c # cs) sub =
     (take (length sub) (c # cs) = sub \<or> strings_Contains cs sub)"

definition demo_template_Parse :: "string \<Rightarrow> err option" where
  "demo_template_Parse t =
     (if strings_Contains t ''{{'' \<and> \<not> strings_Contains t ''}}''
      then Some (ErrNew ''template: path:1: unclosed action'')
      else None)"

text \<open>
  The value of a chain of fields \<open>.a.b\<close> on the data: a key of a map is looked up, a
  field of anything else cannot be evaluated.
\<close>

fun demo_eval_field :: "string list \<Rightarrow> gval \<Rightarrow> err + string" where
  "demo_eval_field [] v = Inr (demo_Sprint v)"
| "demo_eval_field (k # ks) (GMap kvs) =
     (case map_of kvs k of
        None \<Rightarrow> Inr ''<no value>''
      | Some v \<Rightarrow> demo_eval_field ks v)"
| "demo_eval_field (k # ks) v =
     Inl (ErrNew (''template: path: executing: cannot evaluate field '' @ k))"

text \<open>Executing a template whose actions are \<open>{{.a}}\<close> or \<open>{{.a.b}}\<close> on a map.\<close>

function demo_template_Execute :: "string \<Rightarrow> (string \<times> gval) list \<Rightarrow> err + string" where
  "demo_template_Execute t ps =
     (if t = [] then Inr []
      else if take 3 t = ''{{.'' then
        (case demo_eval_field (strings_Split (takeWhile (\<lambda>c. c \<noteq> CHR ''}'') (drop 3 t)) CHR ''.'')
                (GMap ps) of
           Inl e \<Rightarrow> Inl e
         | Inr out \<Rightarrow>
             (case demo_template_Execute (drop 2 (dropWhile (\<lambda>c. c \<noteq> CHR ''}'') (drop 3 t))) ps of
                Inl e \<Rightarrow> Inl e
              | Inr rest \<Rightarrow> Inr (out @ rest)))
      else (case demo_template_Execute (tl t) ps of
              Inl e \<Rightarrow> Inl e
            | Inr rest \<Rightarrow> Inr (hd t # rest)))"
  by pat_completeness auto
termination
proof (relation "measure (\<lambda>(t, ps). length t)")
  show "wf (measure (\<lambda>(t, ps). length t))" by simp
next
  fix t :: string and ps :: "(string \<times> gval) list" and out :: string
  assume "t \<noteq> []"
  have "length (dropWhile (\<lambda>c. c \<noteq> CHR ''}'') (drop 3 t)) \<le> length (drop 3 t)"
    by (rule length_dropWhile_le)
  with \<open>t \<noteq> []\<close>
  show "((drop 2 (dropWhile (\<lambda>c. c \<noteq> CHR ''}'') (drop 3 t)), ps), (t, ps))
          \<in> measure (\<lambda>(t, ps). length t)"
    by (cases t) auto
next
  fix t :: string and ps :: "(string \<times> gval) list"
  assume "t \<noteq> []"
  then show "((tl t, ps), (t, ps)) \<in> measure (\<lambda>(t, ps). length t)"
    by (cases t) auto
qed

declare demo_template_Execute.simps [simp del]

definition demo_NewRequest :: "string \<Rightarrow> string \<Rightarrow> reader option \<Rightarrow> err + http_request" where
  "demo_NewRequest m u body =
     (if CHR '' '' \<in> set m then Inl (ErrNew ''net/http: invalid method'')
      else Inr \<lparr>req_Method = (if m = [] then ''GET'' else m), req_URL = u, Header = [],
                req_Body = body\<rparr>)"

text \<open>
  Example bodies are \<open>{}\<close> and \<open>{"error":"..."}\<close>. \<open>demo_parse\<close> reads such a body:
  \<open>None\<close> is a syntax error, \<open>Some None\<close> an object without the member \<open>error\<close>,
  \<open>Some (Some s)\<close> an object whose member \<open>error\<close> is the string \<open>s\<close>.
\<close>

definition demo_parse :: "string \<Rightarrow> string option option" where
  \<open>demo_parse b =
     (let pre = ''{"error":"''; post = ''"}''
      in if b = ''{}'' then Some None
         else if length pre + length post \<le> length b \<and> take (length pre) b = pre
                 \<and> drop (length b - length post) b = post
         then Some (Some (take (length b - length pre - length post) (drop (length pre) b)))
         else None)\<close>

text \<open>
  The example heap holds the caller's error structs: cell \<open>a\<close> is the field that the JSON
  member \<open>error\<close> decodes into, and the struct's \<open>Error()\<close> returns that field. The
  destination struct of the examples has no member \<open>error\<close>.

  \<open>demo_Unmarshal\<close> follows json-iterator on \<open>Unmarshal(b, &v)\<close> for \<open>v\<close> of type
  \<open>interface{}\<close>: when \<open>v\<close> holds a pointer the bytes are decoded into what it points
  to; when \<open>v\<close> holds a value that is not a pointer (the slice \<open>[]error\<close>), a generic
  value is read and stored in \<open>v\<close> itself, and the caller's memory is untouched.
  \<open>at_end\<close> is the error reported for an empty input.
\<close>

definition demo_decode ::
  "err \<Rightarrow> jsoniter_Config \<Rightarrow> string \<Rightarrow> target \<Rightarrow> (nat \<Rightarrow> string) \<Rightarrow> err option \<times> (nat \<Rightarrow> string)" where
  "demo_decode at_end cfg b v h =
     (if b = [] then (Some at_end, h)
      else case demo_parse b of
             None \<Rightarrow> (Some (ErrNew ''readObjectStart: expect { or n''), h)
           | Some member \<Rightarrow>
               (case v of
                  TErrSlice es \<Rightarrow> (None, h)
                | TDest a \<Rightarrow>
                    (if member \<noteq> None \<and> DisallowUnknownFields cfg
                     then (Some (ErrNew ''found unknown field: error''), h)
                     else (None, h))
                | TErrPtr (ErrStruct a) \<Rightarrow>
                    (case member of None \<Rightarrow> (None, h) | Some m \<Rightarrow> (None, h(a := m)))
                | TErrPtr e \<Rightarrow> (Some (ErrNew ''ReadVal: can only unmarshal into pointer''), h)))"

definition demo_Unmarshal ::
  "jsoniter_Config \<Rightarrow> string \<Rightarrow> target \<Rightarrow> (nat \<Rightarrow> string) \<Rightarrow> err option \<times> (nat \<Rightarrow> string)" where
  "demo_Unmarshal = demo_decode (ErrNew ''readObjectStart: expect { or n'')"

definition demo_lib :: "(gval, nat \<Rightarrow> string) golib" where
  "demo_lib =
     \<lparr>reflect_IsZero = demo_IsZero,
      isZeroer = (\<lambda>v. None),
      fmt_Sprint = demo_Sprint,
      url_Parse = demo_url_Parse,
      url_Query = demo_url_Query,
      values_Encode = demo_values_Encode,
      url_String = demo_url_String,
      path_Join = demo_path_Join,
      template_Parse = demo_template_Parse,
      template_Execute = demo_template_Execute,
      http_NewRequestWithContext = demo_NewRequest,
      CanonicalHeaderKey = (\<lambda>k. k),
      basicAuth = (\<lambda>u p. ''base64('' @ u @ '':'' @ p @ '')''),
      jsoniter_Encode = demo_Encode,
      jsoniter_Unmarshal = demo_Unmarshal,
      render = (\<lambda>h a. h a)\<rparr>"

text \<open>The same library with a decoder that reports \<open>io.EOF\<close> for an empty input.\<close>

definition demo_lib_eof :: "(gval, nat \<Rightarrow> string) golib" where
  "demo_lib_eof = demo_lib\<lparr>jsoniter_Unmarshal := demo_decode ErrEOF\<rparr>"

text \<open>
  An example transport: the first \<open>k\<close> sends fail with a connection error, every later
  one is answered with \<open>resp\<close>.
\<close>

definition flaky :: "nat \<Rightarrow> response \<Rightarrow> nat \<Rightarrow> http_request \<Rightarrow> err + response" where
  "flaky k resp n req = (if n < k then Inl (ErrNew ''dial tcp: connection refused'') else Inr resp)"

definition demo_base :: url where
  "demo_base = \<lparr>Prefix = ''https://api.example.com'', Path = ''/api'', RawQuery = []\<rparr>"

definition demo_client :: "int \<Rightarrow> (nat \<Rightarrow> http_request \<Rightarrow> err + response) \<Rightarrow> client" where
  "demo_client auth transport =
     \<lparr>debug = False, userAgent = ''omniboost/0.0.1'', mediaType = ''application/json'',
      charset = ''utf-8'', baseURL = Some demo_base, disallowUnknownFields = False,
      useCookies = False, authType = auth, userName = ''user'', password = ''secret'',
      keyHeader = ''X-Api-Key'', keyValue = ''k-123'', maxRetries = 0,
      preflightAuthFunc = Some (\<lambda>req. Inr (req\<lparr>Header := Header req @ [(''X-Signature'', ''sig'')]\<rparr>)),
      httpClient = transport\<rparr>"

text \<open>
  Example requests: \<open>GET /users\<close> with one declared error struct (heap cell 1); and a
  request with a path parameter \<open>id\<close>.
\<close>

definition demo_request :: "gval request" where
  "demo_request =
     \<lparr>Method = ''GET'', PathTemplate = ''/users'', struct_fields = Some [], Body_of = None,
      ErrorStructs = Some [ErrStruct 1], SkipAuth = None\<rparr>"

definition demo_path_request :: "string \<Rightarrow> gval request" where
  "demo_path_request template =
     \<lparr>Method = ''GET'', PathTemplate = template,
      struct_fields = Some [\<lparr>tags = [(''path'', ''id'')], fvalue = Value (GInt 7)\<rparr>],
      Body_of = None, ErrorStructs = None, SkipAuth = None\<rparr>"

definition demo_state :: "(nat \<Rightarrow> string) state" where
  "demo_state =
     \<lparr>Jar = None, jsoniterInstance = None, heap = (\<lambda>a. []), sent = [], preflighted = [],
      slept = []\<rparr>"

definition resp_200 :: "string \<Rightarrow> response" where
  "resp_200 b = \<lparr>StatusCode = 200, Status = ''200 OK'', Body = Bytes b\<rparr>"

definition resp_404 :: "string \<Rightarrow> response" where
  "resp_404 b = \<lparr>StatusCode = 404, Status = ''404 Not Found'', Body = Bytes b\<rparr>"

definition quota_body :: string where
  \<open>quota_body = ''{"error":"quota exceeded"}''\<close>

text \<open>
  An example request with four query fields: a nil pointer, a zero value with
  \<open>omitempty\<close>, a zero value without it, and a pointer to a non-zero value with
  \<open>omitempty\<close>.
\<close>

definition demo_query_request :: "gval request" where
  "demo_query_request =
     \<lparr>Method = ''GET'', PathTemplate = ''/users'',
      struct_fields = Some
        [\<lparr>tags = [(''query'', ''id'')], fvalue = NilPointer\<rparr>,
         \<lparr>tags = [(''query'', ''limit,omitempty'')], fvalue = Value (GInt 0)\<rparr>,
         \<lparr>tags = [(''query'', ''offset'')], fvalue = Value (GInt 0)\<rparr>,
         \<lparr>tags = [(''query'', ''page,omitempty'')], fvalue = Pointer (GInt 3)\<rparr>],
      Body_of = None, ErrorStructs = None, SkipAuth = None\<rparr>"

text \<open>
  Example requests with a body: a Go map iterated in the order \<open>b\<close>, \<open>a\<close>; a stream;
  raw bytes; a string.
\<close>

definition demo_map :: gval where
  "demo_map = GMap [(''b'', GInt 1), (''a'', GInt 2)]"

definition demo_body_request :: "gval body_value \<Rightarrow> gval request" where
  "demo_body_request b =
     \<lparr>Method = ''POST'', PathTemplate = ''/users'', struct_fields = Some [], Body_of = Some b,
      ErrorStructs = None, SkipAuth = None\<rparr>"

text \<open>
  Two states that differ at most in what decoding writes: the caller's memory and the
  cached codec.
\<close>

definition only_decoded :: "'h state \<Rightarrow> 'h state \<Rightarrow> bool" where
  "only_decoded w w' \<longleftrightarrow>
     sent w' = sent w \<and> preflighted w' = preflighted w \<and> slept w' = slept w \<and> Jar w' = Jar w"

definition demo_skip_request :: "gval request" where
  "demo_skip_request = demo_request\<lparr>SkipAuth := Some True\<rparr>"

section \<open>Properties\<close>

text \<open>
  C10. For every ErrorResponse, \<open>Error()\<close> is exactly the message when the parent is nil
  and otherwise the message, \<open>": "\<close> and the parent's \<open>Error()\<close>; \<open>Unwrap()\<close> is exactly
  the parent; and \<open>NewErrorResponse\<close> stores the message, the response and the parent it is
  given.
\<close>

theorem ErrorResponse_Error_Unwrap:
  "Error h (ErrorResponse m r None) = m
   \<and> Error h (ErrorResponse m r (Some p)) = m @ '': '' @ Error h p
   \<and> Unwrap (ErrorResponse m r q) = q
   \<and> NewErrorResponse m r q = ErrorResponse m r q
   \<and> message (NewErrorResponse m r q) = m
   \<and> response (NewErrorResponse m r q) = r
   \<and> Parent (NewErrorResponse m r q) = q"
  by (simp add: NewErrorResponse_def)

subsection \<open>Tagged fields\<close>

lemma tagged_entry_name:
  "tagged_entry L tag f = Some (k, v) \<Longrightarrow> param_name tag f = Some k"
  by (auto simp: tagged_entry_def param_name_def Let_def
           split: option.splits fieldval.splits if_splits)

lemma tagged_step_at:
  "map_of (tagged_step L tag m g) k =
     (case tagged_entry L tag g of
        Some (k', v) \<Rightarrow> if k' = k then Some v else map_of m k
      | None \<Rightarrow> map_of m k)"
  by (auto simp: tagged_step_def update_conv' split: option.splits)

text \<open>Fields that assign nothing under the key \<open>k\<close> leave the entry of \<open>k\<close> as it was.\<close>

lemma tagged_fold_other:
  "\<forall>g \<in> set fs. \<forall>v. tagged_entry L tag g \<noteq> Some (k, v)
   \<Longrightarrow> map_of (foldl (tagged_step L tag) m fs) k = map_of m k"
proof (induction fs arbitrary: m)
  case Nil
  then show ?case by simp
next
  case (Cons g fs)
  have "map_of (tagged_step L tag m g) k = map_of m k"
    using Cons.prems
    by (auto simp: tagged_step_at split: option.splits)
  with Cons show ?case by simp
qed

text \<open>When \<open>f\<close> is the only field named \<open>k\<close>, the entry of \<open>k\<close> is what \<open>f\<close> assigns.\<close>

lemma tagged_fold_only:
  assumes "f \<in> set fs"
    and "\<forall>g \<in> set fs. g \<noteq> f \<longrightarrow> param_name tag g \<noteq> Some k"
  shows "map_of (foldl (tagged_step L tag) m fs) k =
           (case tagged_entry L tag f of
              Some (k', v) \<Rightarrow> if k' = k then Some v else map_of m k
            | None \<Rightarrow> map_of m k)"
  using assms
proof (induction fs arbitrary: m rule: rev_induct)
  case Nil
  then show ?case by simp
next
  case (snoc g fs)
  show ?case
  proof (cases "g = f")
    case True
    show ?thesis
    proof (cases "f \<in> set fs")
      case True
      with snoc have IH: "map_of (foldl (tagged_step L tag) m fs) k =
           (case tagged_entry L tag f of
              Some (k', v) \<Rightarrow> if k' = k then Some v else map_of m k
            | None \<Rightarrow> map_of m k)" by simp
      then show ?thesis using \<open>g = f\<close>
        by (auto simp: tagged_step_at split: option.splits)
    next
      case False
      with snoc.prems have "\<forall>g \<in> set fs. \<forall>v. tagged_entry L tag g \<noteq> Some (k, v)"
        by (metis butlast_snoc in_set_butlastD tagged_entry_name)
      then have "map_of (foldl (tagged_step L tag) m fs) k = map_of m k"
        by (rule tagged_fold_other)
      then show ?thesis using \<open>g = f\<close>
        by (auto simp: tagged_step_at split: option.splits)
    qed
  next
    case False
    with snoc.prems have "f \<in> set fs" by auto
    moreover from snoc.prems have "\<forall>g \<in> set fs. g \<noteq> f \<longrightarrow> param_name tag g \<noteq> Some k" by auto
    ultimately have IH: "map_of (foldl (tagged_step L tag) m fs) k =
           (case tagged_entry L tag f of
              Some (k', v) \<Rightarrow> if k' = k then Some v else map_of m k
            | None \<Rightarrow> map_of m k)" by (rule snoc.IH)
    from False snoc.prems have "param_name tag g \<noteq> Some k" by auto
    then have "\<forall>v. tagged_entry L tag g \<noteq> Some (k, v)"
      using tagged_entry_name by fastforce
    then have "map_of (tagged_step L tag (foldl (tagged_step L tag) m fs) g) k
                = map_of (foldl (tagged_step L tag) m fs) k"
      by (auto simp: tagged_step_at split: option.splits)
    with IH show ?thesis by simp
  qed
qed

text \<open>
  C7. Take a field of the request that bears the tag (\<open>path\<close> or \<open>query\<close>) and is the only
  field with its parameter name. Its entry in the parameter map is: absent when the
  field is a nil pointer, with or without \<open>omitempty\<close>; absent when the tag has
  \<open>omitempty\<close> and the value (the pointee, for a pointer) is the zero value of its type or
  reports itself empty through \<open>IsZero()\<close>; the value in every other case, so a zero
  value without \<open>omitempty\<close> is present.
\<close>

theorem getTaggedFields_omitempty:
  assumes "struct_fields elem = Some fs" and "f \<in> set fs"
    and "map_of (tags f) tag = Some tagValue"
    and "parts = strings_Split tagValue CHR '',''" and "name = first_part parts"
    and "\<forall>g \<in> set fs. g \<noteq> f \<longrightarrow> param_name tag g \<noteq> Some name"
  shows "map_of (getTaggedFields L elem tag) name =
           (case fvalue f of
              NilPointer \<Rightarrow> None
            | Pointer raw \<Rightarrow>
                if ''omitempty'' \<in> set parts \<and> (reflect_IsZero L raw \<or> isZeroer L raw = Some True)
                then None else Some raw
            | Value raw \<Rightarrow>
                if ''omitempty'' \<in> set parts \<and> (reflect_IsZero L raw \<or> isZeroer L raw = Some True)
                then None else Some raw)"
proof -
  have "map_of (getTaggedFields L elem tag) name =
          (case tagged_entry L tag f of
              Some (k', v) \<Rightarrow> if k' = name then Some v else None
            | None \<Rightarrow> None)"
    using tagged_fold_only [OF assms(2) assms(6), of L "[]"] assms(1)
    by (simp add: getTaggedFields_def split: option.splits)
  then show ?thesis
    using assms(3-5)
    by (auto simp: tagged_entry_def Let_def split: fieldval.splits)
qed

lemma split_demo:
  "strings_Split ''id'' CHR '','' = [''id'']"
  "strings_Split ''limit,omitempty'' CHR '','' = [''limit'', ''omitempty'']"
  "strings_Split ''offset'' CHR '','' = [''offset'']"
  "strings_Split ''page,omitempty'' CHR '','' = [''page'', ''omitempty'']"
  by code_simp+

theorem getTaggedFields_omitempty_witness:
  "map_of (getTaggedFields demo_lib demo_query_request ''query'') ''id'' = None
   \<and> map_of (getTaggedFields demo_lib demo_query_request ''query'') ''limit'' = None
   \<and> map_of (getTaggedFields demo_lib demo_query_request ''query'') ''offset'' = Some (GInt 0)
   \<and> map_of (getTaggedFields demo_lib demo_query_request ''query'') ''page'' = Some (GInt 3)"
proof -
  let ?fs = "[\<lparr>tags = [(''query'', ''id'')], fvalue = NilPointer\<rparr>,
         \<lparr>tags = [(''query'', ''limit,omitempty'')], fvalue = Value (GInt 0)\<rparr>,
         \<lparr>tags = [(''query'', ''offset'')], fvalue = Value (GInt 0)\<rparr>,
         \<lparr>tags = [(''query'', ''page,omitempty'')], fvalue = Pointer (GInt 3)\<rparr>]"
  have fs: "struct_fields demo_query_request = Some ?fs"
    by (simp add: demo_query_request_def)
  have a: "map_of (getTaggedFields demo_lib demo_query_request ''query'') ''id'' = None"
    using getTaggedFields_omitempty [OF fs, of "?fs ! 0" "''query''" "''id''" "[''id'']" "''id''" demo_lib]
    by (simp add: param_name_def first_part_def split_demo)
  have b: "map_of (getTaggedFields demo_lib demo_query_request ''query'') ''limit'' = None"
    using getTaggedFields_omitempty [OF fs, of "?fs ! 1" "''query''" "''limit,omitempty''"
        "[''limit'', ''omitempty'']" "''limit''" demo_lib]
    by (simp add: param_name_def first_part_def demo_lib_def split_demo)
  have c: "map_of (getTaggedFields demo_lib demo_query_request ''query'') ''offset'' = Some (GInt 0)"
    using getTaggedFields_omitempty [OF fs, of "?fs ! 2" "''query''" "''offset''"
        "[''offset'']" "''offset''" demo_lib]
    by (simp add: param_name_def first_part_def demo_lib_def split_demo)
  have d: "map_of (getTaggedFields demo_lib demo_query_request ''query'') ''page'' = Some (GInt 3)"
    using getTaggedFields_omitempty [OF fs, of "?fs ! 3" "''query''" "''page,omitempty''"
        "[''page'', ''omitempty'']" "''page''" demo_lib]
    by (simp add: param_name_def first_part_def demo_lib_def split_demo)
  from a b c d show ?thesis by simp
qed

text \<open>
  The copy of the function in src/client/client.go differs on a nil pointer without
  \<open>omitempty\<close>: it stores the nil pointer under the parameter name.
\<close>

lemma getTaggedFields_client_nil_pointer:
  "map_of (getTaggedFields_client demo_lib demo_query_request ''query'') ''id'' = Some None"
  by code_simp

subsection \<open>The request body\<close>

text \<open>
  C6, as the claim states it, fails: a body that is neither a stream, bytes nor a string
  is not encoded by the client's configured codec. For the map \<open>{"b":1,"a":2}\<close>,
  iterated as \<open>b\<close>, \<open>a\<close>, the outbound body keeps the iteration order, while the
  client's codec (\<open>GetJsoniter\<close>, with sorted map keys) would write \<open>a\<close> first.
\<close>

theorem getRequestBody_client_codec_counterexample:
  \<open>getRequestBody demo_lib (demo_body_request (BOther demo_map))
       = Inr (Some (Buffer (''{"b":1,"a":2}'' @ [CHR 0x0A])))
   \<and> jsoniter_Encode demo_lib
         (fst (GetJsoniter (demo_client 0 (flaky 0 (resp_200 []))) demo_state)) demo_map
       = Inr (''{"a":2,"b":1}'' @ [CHR 0x0A])
   \<and> getRequestBody demo_lib (demo_body_request (BOther demo_map))
       \<noteq> (case jsoniter_Encode demo_lib
                  (fst (GetJsoniter (demo_client 0 (flaky 0 (resp_200 []))) demo_state)) demo_map of
            Inl e \<Rightarrow> Inl (ErrWrap ''failed to encode request body: '' e)
          | Inr buf \<Rightarrow> Inr (Some (Buffer buf)))\<close>
  by code_simp

text \<open>
  C6, amended. A body that is neither a stream, bytes nor a string is JSON-encoded by
  the package-level default encoder of json-iterator (\<open>jsoniter.NewEncoder\<close>, that is
  \<open>ConfigDefault\<close>), whatever the client's options are; a failure of the encoder is
  returned, wrapped. A stream passes through unchanged; bytes and strings become a
  reader over exactly those bytes.
\<close>

theorem getRequestBody_default_encoder:
  "(Body_of r = Some (BOther v) \<longrightarrow>
      getRequestBody L r =
        (case jsoniter_Encode L ConfigDefault v of
           Inl e \<Rightarrow> Inl (ErrWrap ''failed to encode request body: '' e)
         | Inr buf \<Rightarrow> Inr (Some (Buffer buf))))
   \<and> (Body_of r = Some (BReader s) \<longrightarrow> getRequestBody L r = Inr (Some (Stream s)))
   \<and> (Body_of r = Some (BBytes b) \<longrightarrow> getRequestBody L r = Inr (Some (BytesReader b)))
   \<and> (Body_of r = Some (BString b) \<longrightarrow> getRequestBody L r = Inr (Some (BytesReader b)))"
  by (simp add: getRequestBody_def)

theorem getRequestBody_default_encoder_witness:
  \<open>getRequestBody demo_lib (demo_body_request (BOther demo_map))
       = Inr (Some (Buffer (''{"b":1,"a":2}'' @ [CHR 0x0A])))
   \<and> getRequestBody demo_lib (demo_body_request (BReader 5)) = Inr (Some (Stream 5))
   \<and> getRequestBody demo_lib (demo_body_request (BBytes ''abc'')) = Inr (Some (BytesReader ''abc''))
   \<and> getRequestBody demo_lib (demo_body_request (BString ''abc'')) = Inr (Some (BytesReader ''abc''))\<close>
proof -
  have enc: \<open>jsoniter_Encode demo_lib ConfigDefault demo_map = Inr (''{"b":1,"a":2}'' @ [CHR 0x0A])\<close>
    by code_simp
  have body: "\<And>b. Body_of (demo_body_request b) = Some b"
    by (simp add: demo_body_request_def)
  show ?thesis
    using getRequestBody_default_encoder
            [of "demo_body_request (BOther demo_map)" demo_map demo_lib 0 "[]"]
          getRequestBody_default_encoder
            [of "demo_body_request (BReader 5)" demo_map demo_lib 5 "[]"]
          getRequestBody_default_encoder
            [of "demo_body_request (BBytes ''abc'')" demo_map demo_lib 0 "''abc''"]
          getRequestBody_default_encoder
            [of "demo_body_request (BString ''abc'')" demo_map demo_lib 0 "''abc''"]
    by (simp add: body enc)
qed

subsection \<open>A failure of the path template\<close>

text \<open>
  When the path has parameters and executing the template fails, \<open>getHttpRequest\<close> does
  not return: the error goes to \<open>log.Fatal\<close>, and so \<open>Do\<close> does not return either.
\<close>

lemma getHttpRequest_Execute_fatal:
  assumes "url_Parse L (PathTemplate r) = Inr parsed"
    and "getTaggedFields L r ''path'' \<noteq> []"
    and "template_Parse L (path_Join L (Path base) (Path parsed)) = None"
    and "template_Execute L (path_Join L (Path base) (Path parsed)) (getTaggedFields L r ''path'')
           = Inl e"
  shows "getHttpRequest L r base = Fatal e"
  using assms by (simp add: getHttpRequest_def Let_def)

lemma Do_Execute_fatal:
  assumes "baseURL c = Some base" and "getHttpRequest L r base = Fatal e"
  shows "fst (Do L c ctx r dest w) = Fatal e"
  using assms by (simp add: Do.simps [of L c ctx] Do_send_def Let_def)

text \<open>
  C2 does not hold of the code. The request has the path template
  \<open>/users/{{.id.name}}\<close> and a field tagged \<open>path:"id"\<close> with the value 7: the template
  parses, executing it fails (an integer has no field \<open>name\<close>), and the call of \<open>Do\<close> ends
  the process instead of returning an error.
\<close>

theorem Do_template_failure_exits:
  "getHttpRequest demo_lib (demo_path_request ''/users/{{.id.name}}'') demo_base
     = Fatal (ErrNew ''template: path: executing: cannot evaluate field name'')
   \<and> fst (Do demo_lib (demo_client 0 (flaky 0 (resp_200 []))) None
            (demo_path_request ''/users/{{.id.name}}'') None demo_state)
     = Fatal (ErrNew ''template: path: executing: cannot evaluate field name'')"
proof -
  have g: "getHttpRequest demo_lib (demo_path_request ''/users/{{.id.name}}'') demo_base
     = Fatal (ErrNew ''template: path: executing: cannot evaluate field name'')"
    by code_simp
  have b: "baseURL (demo_client 0 (flaky 0 (resp_200 []))) = Some demo_base"
    by (simp add: demo_client_def)
  from g Do_Execute_fatal [OF b g] show ?thesis by simp
qed

subsection \<open>What decoding leaves alone\<close>

lemma only_decoded_refl: "only_decoded w w"
  by (simp add: only_decoded_def)

lemma only_decoded_trans: "only_decoded w w' \<Longrightarrow> only_decoded w' w'' \<Longrightarrow> only_decoded w w''"
  by (simp add: only_decoded_def)

lemma GetJsoniter_only_decoded: "only_decoded w (snd (GetJsoniter c w))"
  by (simp add: GetJsoniter_def only_decoded_def Let_def split: option.splits)

lemma Unmarshal_loop_only_decoded: "only_decoded w (snd (Unmarshal_loop L c b vv errs w))"
proof (induction vv arbitrary: errs w)
  case Nil
  show ?case by (simp add: only_decoded_refl)
next
  case (Cons v vv)
  obtain api w1 where g: "GetJsoniter c w = (api, w1)" by (cases "GetJsoniter c w")
  obtain r h' where u: "jsoniter_Unmarshal L api b v (heap w1) = (r, h')"
    by (cases "jsoniter_Unmarshal L api b v (heap w1)")
  have "only_decoded w w1" using GetJsoniter_only_decoded [of w c] g by simp
  then have "only_decoded w (w1\<lparr>heap := h'\<rparr>)" by (simp add: only_decoded_def)
  then show ?case
    using g u Cons.IH only_decoded_trans by fastforce
qed

lemma Unmarshal_snd:
  "snd (Unmarshal L c r vv w) = w
   \<or> (\<exists>b. snd (Unmarshal L c r vv w) = snd (Unmarshal_loop L c b vv [] w))"
proof (cases r)
  case (ReadFails m)
  then show ?thesis by (simp add: Unmarshal_def)
next
  case (Bytes b)
  then have "snd (Unmarshal L c r vv w) = w
             \<or> snd (Unmarshal L c r vv w) = snd (Unmarshal_loop L c b vv [] w)"
    by (simp add: Unmarshal_def split: prod.splits)
  then show ?thesis by blast
qed

lemma Unmarshal_only_decoded: "only_decoded w (snd (Unmarshal L c r vv w))"
  using Unmarshal_snd [of L c r vv w] Unmarshal_loop_only_decoded [of w L c _ vv "[]"]
  by (auto simp: only_decoded_refl)

lemma Do_resolve_snd:
  "snd (Do_resolve L c request dest resp w) = w
   \<or> (\<exists>vv. snd (Do_resolve L c request dest resp w) = snd (Unmarshal L c (Body resp) vv w))"
  unfolding Do_resolve_def Let_def
  by (auto split: option.splits prod.splits) (metis snd_conv)+

lemma Do_resolve_only_decoded: "only_decoded w (snd (Do_resolve L c request dest resp w))"
  using Do_resolve_snd [of L c request dest resp w] Unmarshal_only_decoded [of w L c "Body resp"]
  by (auto simp: only_decoded_refl)

subsection \<open>Skipping authentication\<close>

text \<open>With \<open>SkipAuth()\<close> true the authentication step changes nothing.\<close>

lemma Do_auth_skip:
  "SkipAuth request = Some True \<Longrightarrow> Do_auth L c request req w = (Inr req, w)"
  by (simp add: Do_auth_def)

lemma Do_jar_frame [simp]:
  "sent (Do_jar c w) = sent w" "preflighted (Do_jar c w) = preflighted w"
  "slept (Do_jar c w) = slept w" "heap (Do_jar c w) = heap w"
  by (simp_all add: Do_jar_def)

text \<open>
  When the request is built and authenticated, \<open>Do\<close> hands exactly that request, with
  the standard headers, to the transport.
\<close>

lemma Do_send_sends:
  assumes "baseURL c = Some base"
    and "getHttpRequest L request base = Return (Inr req)"
    and "Do_auth L c request req (Do_jar c w) = (Inr req2, w2)"
  shows "Do_send L c request w =
           ((case httpClient c (length (sent w2)) (Do_headers L c req2) of
               Inl e \<Rightarrow> Failed e
             | Inr resp \<Rightarrow> Responded resp),
            w2\<lparr>sent := sent w2 @ [Do_headers L c req2]\<rparr>)"
  using assms by (simp add: Do_send_def Let_def split: sum.splits)

lemma Do_send_skip:
  assumes "SkipAuth request = Some True" and "baseURL c = Some base"
    and "getHttpRequest L request base = Return (Inr req)"
  shows "sent (snd (Do_send L c request w)) = sent w @ [Do_headers L c req]
       \<and> preflighted (snd (Do_send L c request w)) = preflighted w"
  using Do_send_sends [OF assms(2,3) Do_auth_skip [OF assms(1)], of w] by simp

text \<open>
  C8. When the request's \<open>SkipAuth()\<close> is true, whatever the client's auth type: the
  authentication step leaves the built request as it is; the preflight function is not
  called; every request \<open>Do\<close> hands to the transport is the built request with the
  headers Content-Type, Accept and User-Agent added and nothing else, so it has no
  basic-auth header and no api-key header from the client.
\<close>

theorem Do_skip_auth_no_credentials:
  assumes "SkipAuth request = Some True" and "baseURL c = Some base"
    and "getHttpRequest L request base = Return (Inr req)"
  shows "Do_auth L c request req w = (Inr req, w)
       \<and> preflighted (snd (Do L c ctx request dest w)) = preflighted w
       \<and> (\<exists>n. sent (snd (Do L c ctx request dest w)) = sent w @ replicate n (Do_headers L c req))
       \<and> Header (Do_headers L c req) =
           Header req @
             [(CanonicalHeaderKey L ''Content-Type'', mediaType c @ ''; charset='' @ charset c),
              (CanonicalHeaderKey L ''Accept'', mediaType c),
              (CanonicalHeaderKey L ''User-Agent'', userAgent c)]"
proof -
  have run: "preflighted (snd (Do L c ctx request dest w)) = preflighted w
       \<and> (\<exists>n. sent (snd (Do L c ctx request dest w)) = sent w @ replicate n (Do_headers L c req))"
    using assms
  proof (induction L c ctx request dest w rule: Do.induct)
    case (1 L c ctx request dest w)
    obtain a w' where A: "Do_send L c request w = (a, w')"
      by (cases "Do_send L c request w")
    have S: "sent w' = sent w @ [Do_headers L c req]" and P: "preflighted w' = preflighted w"
      using Do_send_skip [OF "1.prems", of w] A by simp_all
    have one: "sent w' = sent w @ replicate 1 (Do_headers L c req)" using S by simp
    show ?case
    proof (cases a)
      case (Ended r)
      with A have "Do L c ctx request dest w = (r, w')" by (simp add: Do.simps [of L c ctx])
      with P one show ?thesis by (metis snd_conv)
    next
      case (Failed e)
      show ?thesis
      proof (cases "attempt_of ctx < maxRetries c")
        case True
        let ?w = "w'\<lparr>slept := slept w' @ [100]\<rparr>"
        have D: "Do L c ctx request dest w = Do L c (Some (attempt_of ctx + 1)) request dest ?w"
          using A Failed True by (simp add: Do.simps [of L c ctx])
        from "1.IH" [OF A [symmetric] Failed True "1.prems"]
        obtain n where
          "preflighted (snd (Do L c (Some (attempt_of ctx + 1)) request dest ?w)) = preflighted ?w"
          "sent (snd (Do L c (Some (attempt_of ctx + 1)) request dest ?w))
             = sent ?w @ replicate n (Do_headers L c req)"
          by blast
        then have "preflighted (snd (Do L c ctx request dest w)) = preflighted w"
          and "sent (snd (Do L c ctx request dest w)) = sent w @ replicate (Suc n) (Do_headers L c req)"
          using D S P by simp_all
        then show ?thesis by blast
      next
        case False
        with A Failed
        have "snd (Do L c ctx request dest w) = w'" by (simp add: Do.simps [of L c ctx])
        with P one show ?thesis by metis
      qed
    next
      case (Responded resp)
      with A have "snd (Do L c ctx request dest w) = snd (Do_resolve L c request dest resp w')"
        by (simp add: Do.simps [of L c ctx] split: prod.splits)
      moreover have "only_decoded w' (snd (Do_resolve L c request dest resp w'))"
        by (rule Do_resolve_only_decoded)
      ultimately have "sent (snd (Do L c ctx request dest w)) = sent w'"
        and "preflighted (snd (Do L c ctx request dest w)) = preflighted w'"
        by (simp_all add: only_decoded_def)
      with P one show ?thesis by metis
    qed
  qed
  show ?thesis
    using run assms(1)
    by (simp add: Do_auth_skip Do_headers_def Header_Add_def)
qed

theorem Do_skip_auth_no_credentials_witness:
  "Do_auth demo_lib (demo_client authTypeBasic (flaky 1 (resp_200 []))) demo_skip_request
       \<lparr>req_Method = ''GET'', req_URL = ''https://api.example.com/api/users'', Header = [],
        req_Body = None\<rparr> demo_state
     = (Inr \<lparr>req_Method = ''GET'', req_URL = ''https://api.example.com/api/users'', Header = [],
             req_Body = None\<rparr>, demo_state)
   \<and> preflighted (snd (Do demo_lib (demo_client authTypeBasic (flaky 1 (resp_200 []))) None
                          demo_skip_request None demo_state)) = []
   \<and> (\<exists>n. sent (snd (Do demo_lib (demo_client authTypeBasic (flaky 1 (resp_200 []))) None
                          demo_skip_request None demo_state))
           = replicate n
               \<lparr>req_Method = ''GET'', req_URL = ''https://api.example.com/api/users'',
                Header = [(''Content-Type'', ''application/json; charset=utf-8''),
                          (''Accept'', ''application/json''),
                          (''User-Agent'', ''omniboost/0.0.1'')],
                req_Body = None\<rparr>)"
proof -
  let ?c = "demo_client authTypeBasic (flaky 1 (resp_200 []))"
  let ?req = "\<lparr>req_Method = ''GET'', req_URL = ''https://api.example.com/api/users'',
               Header = [], req_Body = None\<rparr>"
  have s: "SkipAuth demo_skip_request = Some True" by (simp add: demo_skip_request_def)
  have b: "baseURL ?c = Some demo_base" by (simp add: demo_client_def)
  have g: "getHttpRequest demo_lib demo_skip_request demo_base = Return (Inr ?req)"
    by code_simp
  have h: "Do_headers demo_lib ?c ?req =
             \<lparr>req_Method = ''GET'', req_URL = ''https://api.example.com/api/users'',
                Header = [(''Content-Type'', ''application/json; charset=utf-8''),
                          (''Accept'', ''application/json''),
                          (''User-Agent'', ''omniboost/0.0.1'')],
                req_Body = None\<rparr>"
    by code_simp
  have w: "preflighted demo_state = []" "sent demo_state = []" by (simp_all add: demo_state_def)
  note T = Do_skip_auth_no_credentials [OF s b g, of demo_state None None]
  show ?thesis
    using T [THEN conjunct1] T [THEN conjunct2, THEN conjunct1]
      T [THEN conjunct2, THEN conjunct2, THEN conjunct1]
    unfolding h w by simp
qed

end
